theory Spec2Isabelle
  imports Main
begin

section \<open>Data model of algorithms.py\<close>

text \<open>
  Python objects are mutable and shared: an edge is appended to the \<open>edges\<close> list of both
  of its endpoints and to the list of the graph. The model keeps an explicit store. A
  reference to a vertex or to an edge is its address, the index at which the object was
  allocated in the store; allocation appends to the store. The wrapped item of a vertex is
  any value of a type \<open>'a\<close>, and \<open>==\<close> on items is the equality of that type.
\<close>

datatype error =
    NameError string
  | AttributeError string
  | KeyError string
  | ValueError
  | TypeError

record 'a vertex =
  item :: 'a
  neigbors :: "nat list"
  edges :: "nat list"

record edge =
  vertex_1 :: nat
  vertex_2 :: nat
  weight :: int

record 'a heap =
  vertex_objs :: "'a vertex list"
  edge_objs :: "edge list"

text \<open>What the right operand of a comparison can be: a vertex, an edge, or anything else.\<close>

datatype pyref = VertexRef nat | EdgeRef nat | OtherRef

subsection \<open>Free names of the module\<close>

text \<open>
  A name that is neither local nor an attribute access is looked up among the names
  bound at module level, which are the three classes, and then among the builtins, none
  of which is called \<open>_get_parallels\<close>. A name found nowhere raises NameError.
\<close>

datatype module_class = Class_Vertex | Class_Edge | Class_MatchingGraph

definition module_scope :: "(string \<times> module_class) list" where
  "module_scope =
     [(''Vertex'', Class_Vertex), (''Edge'', Class_Edge),
      (''MatchingGraph'', Class_MatchingGraph)]"

definition resolve_name :: "string \<Rightarrow> error + module_class" where
  "resolve_name n =
     (case map_of module_scope n of None \<Rightarrow> Inl (NameError n) | Some c \<Rightarrow> Inr c)"

text \<open>
  Calling one of the three classes with a single argument and unpacking the result into
  two names cannot succeed: \<open>Vertex(other)\<close> is a vertex, which is not iterable, and the
  other two constructors miss a required argument.
\<close>

fun call_and_unpack_pair :: "module_class \<Rightarrow> pyref \<Rightarrow> error + (bool \<times> bool)" where
  "call_and_unpack_pair Class_Vertex other = Inl TypeError"
| "call_and_unpack_pair Class_Edge other = Inl TypeError"
| "call_and_unpack_pair Class_MatchingGraph other = Inl TypeError"

section \<open>Vertex\<close>

definition Vertex_init :: "'a heap \<Rightarrow> 'a \<Rightarrow> nat \<times> 'a heap" where
  "Vertex_init h it =
     (length (vertex_objs h),
      h\<lparr>vertex_objs := vertex_objs h @ [\<lparr>item = it, neigbors = [], edges = []\<rparr>]\<rparr>)"

text \<open>
  \<open>Vertex.__eq__\<close>: an operand without an \<open>item\<close> attribute (an edge, or any other
  object) is never equal; otherwise the items are compared.
\<close>

fun Vertex_eq :: "'a heap \<Rightarrow> nat \<Rightarrow> pyref \<Rightarrow> bool" where
  "Vertex_eq h self (VertexRef other) =
     (item (vertex_objs h ! self) = item (vertex_objs h ! other))"
| "Vertex_eq h self (EdgeRef other) = False"
| "Vertex_eq h self OtherRef = False"

text \<open>
  \<open>add_neighbor\<close> mutates the vertex at address \<open>self\<close>. A Python reference always
  denotes a live object; at an address outside the store the update changes nothing.
\<close>

definition add_neighbor :: "'a heap \<Rightarrow> nat \<Rightarrow> nat \<Rightarrow> nat \<Rightarrow> 'a heap" where
  "add_neighbor h self other_vertex e =
     h\<lparr>vertex_objs := (vertex_objs h)
          [self := (vertex_objs h ! self)
             \<lparr>neigbors := neigbors (vertex_objs h ! self) @ [other_vertex],
              edges := edges (vertex_objs h ! self) @ [e]\<rparr>]\<rparr>"

section \<open>Edge\<close>

text \<open>
  \<open>Edge.__init__(vertex_1, vertex_2, weight=1)\<close>: the new edge is allocated, its weight
  attribute is assigned the literal 1, and the edge is registered on both endpoints. The
  result is the address of the new edge and the store after the call.
\<close>

definition Edge_init :: "'a heap \<Rightarrow> nat \<Rightarrow> nat \<Rightarrow> int \<Rightarrow> nat \<times> 'a heap" where
  "Edge_init h v1 v2 w =
     (let self = length (edge_objs h);
          h1 = h\<lparr>edge_objs := edge_objs h @ [\<lparr>vertex_1 = v1, vertex_2 = v2, weight = 1\<rparr>]\<rparr>;
          h2 = add_neighbor h1 v1 v2 self;
          h3 = add_neighbor h2 v2 v1 self
      in (self, h3))"

definition Edge_init_default :: "'a heap \<Rightarrow> nat \<Rightarrow> nat \<Rightarrow> nat \<times> 'a heap" where
  "Edge_init_default h v1 v2 = Edge_init h v1 v2 1"

text \<open>The instance method \<open>Edge._get_parallels(self, other)\<close>, lines 109 to 122.\<close>

definition get_parallels :: "'a heap \<Rightarrow> nat \<Rightarrow> nat \<Rightarrow> bool \<times> bool" where
  "get_parallels h self other =
     (let parallel =
            (Vertex_eq h (vertex_1 (edge_objs h ! self)) (VertexRef (vertex_1 (edge_objs h ! other)))
             \<and> Vertex_eq h (vertex_2 (edge_objs h ! self)) (VertexRef (vertex_2 (edge_objs h ! other))));
          reverse =
            (Vertex_eq h (vertex_1 (edge_objs h ! self)) (VertexRef (vertex_2 (edge_objs h ! other)))
             \<and> Vertex_eq h (vertex_2 (edge_objs h ! self)) (VertexRef (vertex_1 (edge_objs h ! other))))
      in (parallel, reverse))"

text \<open>
  \<open>Edge.__eq__\<close> and \<open>Edge.__lt__\<close> call the free name \<open>_get_parallels\<close> with the one
  argument \<open>other\<close>; they do not call the method through \<open>self\<close>.
\<close>

fun Edge_eq :: "'a heap \<Rightarrow> nat \<Rightarrow> pyref \<Rightarrow> error + bool" where
  "Edge_eq h self (EdgeRef other) =
     (case resolve_name ''_get_parallels'' of
        Inl err \<Rightarrow> Inl err
      | Inr f \<Rightarrow>
          (case call_and_unpack_pair f (EdgeRef other) of
             Inl err \<Rightarrow> Inl err
           | Inr (parallel, reverse) \<Rightarrow>
               Inr (weight (edge_objs h ! self) = weight (edge_objs h ! other)
                    \<and> (parallel \<or> reverse))))"
| "Edge_eq h self (VertexRef other) = Inr False"
| "Edge_eq h self OtherRef = Inr False"

fun Edge_lt :: "'a heap \<Rightarrow> nat \<Rightarrow> pyref \<Rightarrow> error + bool" where
  "Edge_lt h self (EdgeRef other) =
     (case resolve_name ''_get_parallels'' of
        Inl err \<Rightarrow> Inl err
      | Inr f \<Rightarrow>
          (case call_and_unpack_pair f (EdgeRef other) of
             Inl err \<Rightarrow> Inl err
           | Inr (parallel, reverse) \<Rightarrow>
               Inr (weight (edge_objs h ! self) < weight (edge_objs h ! other)
                    \<and> (parallel \<or> reverse))))"
| "Edge_lt h self (VertexRef other) = Inr False"
| "Edge_lt h self OtherRef = Inr False"

definition add_weight :: "'a heap \<Rightarrow> nat \<Rightarrow> int \<Rightarrow> 'a heap" where
  "add_weight h self w =
     h\<lparr>edge_objs := (edge_objs h)
          [self := (edge_objs h ! self)\<lparr>weight := weight (edge_objs h ! self) + w\<rparr>]\<rparr>"

section \<open>Vertex.heaviest_edge\<close>

text \<open>
  The builtin \<open>max\<close> of a list raises ValueError on the empty list; otherwise it keeps
  the first element and replaces it by each later element that is greater (\<open>item > best\<close>).
  Edge defines no \<open>__gt__\<close>, so \<open>item > best\<close> is answered by the reflected
  \<open>best.__lt__(item)\<close>.
\<close>

definition Edge_gt :: "'a heap \<Rightarrow> nat \<Rightarrow> nat \<Rightarrow> error + bool" where
  "Edge_gt h candidate best = Edge_lt h best (EdgeRef candidate)"

fun max_loop :: "'a heap \<Rightarrow> nat \<Rightarrow> nat list \<Rightarrow> error + nat" where
  "max_loop h best [] = Inr best"
| "max_loop h best (candidate # rest) =
     (case Edge_gt h candidate best of
        Inl err \<Rightarrow> Inl err
      | Inr is_greater \<Rightarrow> max_loop h (if is_greater then candidate else best) rest)"

fun py_max :: "'a heap \<Rightarrow> nat list \<Rightarrow> error + nat" where
  "py_max h [] = Inl ValueError"
| "py_max h (first # rest) = max_loop h first rest"

text \<open>
  The property catches ValueError only and answers None for it; every other exception
  leaves the property.
\<close>

definition heaviest_edge :: "'a heap \<Rightarrow> nat \<Rightarrow> error + nat option" where
  "heaviest_edge h self =
     (case py_max h (edges (vertex_objs h ! self)) of
        Inl ValueError \<Rightarrow> Inr None
      | Inl err \<Rightarrow> Inl err
      | Inr e \<Rightarrow> Inr (Some e))"

section \<open>MatchingGraph\<close>

text \<open>
  The attributes of a graph object. The attribute \<open>edges\<close> of the graph is the field
  \<open>graph_edges\<close> here, since the vertex record has a field \<open>edges\<close> already.
\<close>

record 'a matching_graph =
  x_set :: "'a list"
  y_set :: "'a list"
  graph_edges :: "nat list"
  matches :: "nat list"
  according_to_x_set :: bool
  vertex_attr_a :: string
  vertex_attr_b :: string
  x_vertices :: "nat list"
  y_vertices :: "nat list"

text \<open>Indexing a two-element list with a boolean: False is index 0, True is index 1.\<close>

definition bool_index :: "bool \<Rightarrow> nat" where
  "bool_index b = (if b then 1 else 0)"

text \<open>A \<open>for\<close> loop whose body may raise: the first exception ends the loop.\<close>

fun foreach :: "('x \<Rightarrow> 's \<Rightarrow> error + 's) \<Rightarrow> 'x list \<Rightarrow> 's \<Rightarrow> error + 's" where
  "foreach body [] s = Inr s"
| "foreach body (x # xs) s =
     (case body x s of Inl err \<Rightarrow> Inl err | Inr s' \<Rightarrow> foreach body xs s')"

subsection \<open>Vertex initialisation\<close>

text \<open>
  With the default arguments both extractors are None, so every vertex is built as
  \<open>Vertex(item)\<close>; the vertices of a side are allocated in the order of its items.
\<close>

fun make_vertices :: "'a heap \<Rightarrow> 'a list \<Rightarrow> nat list \<times> 'a heap" where
  "make_vertices h [] = ([], h)"
| "make_vertices h (it # items) =
     (let (v, h1) = Vertex_init h it;
          (vs, h2) = make_vertices h1 items
      in (v # vs, h2))"

definition initialize_vertices ::
  "'a heap \<times> 'a matching_graph \<Rightarrow> 'a heap \<times> 'a matching_graph" where
  "initialize_vertices s =
     (let (h, g) = s;
          (xs, h1) = make_vertices h (x_set g);
          (ys, h2) = make_vertices h1 (y_set g)
      in (h2, g\<lparr>x_vertices := xs, y_vertices := ys\<rparr>))"

subsection \<open>The predicate pipeline (default methods)\<close>

definition get_x_set_condition_values :: "nat \<Rightarrow> (string \<rightharpoonup> nat)" where
  "get_x_set_condition_values x_vertex = [''value'' \<mapsto> x_vertex]"

definition get_y_set_condition_values :: "nat \<Rightarrow> (string \<rightharpoonup> nat)" where
  "get_y_set_condition_values y_vertex = [''value'' \<mapsto> y_vertex]"

definition get_matching_arguments ::
  "nat \<Rightarrow> nat \<Rightarrow> (string \<rightharpoonup> nat) \<times> (string \<rightharpoonup> nat)" where
  "get_matching_arguments x_vertex y_vertex =
     (let x_conditions = get_x_set_condition_values x_vertex;
          y_conditions = get_y_set_condition_values y_vertex
      in (x_conditions, y_conditions))"

definition dict_get :: "(string \<rightharpoonup> nat) \<Rightarrow> string \<Rightarrow> error + nat" where
  "dict_get d k = (case d k of None \<Rightarrow> Inl (KeyError k) | Some v \<Rightarrow> Inr v)"

text \<open>The tuple of conditions is a list of booleans; by default it has one element.\<close>

definition get_conditions ::
  "'a heap \<Rightarrow> (string \<rightharpoonup> nat) \<Rightarrow> (string \<rightharpoonup> nat) \<Rightarrow> error + bool list" where
  "get_conditions h x_conditions y_conditions =
     (case dict_get x_conditions ''value'' of
        Inl err \<Rightarrow> Inl err
      | Inr xv \<Rightarrow>
          (case dict_get y_conditions ''value'' of
             Inl err \<Rightarrow> Inl err
           | Inr yv \<Rightarrow> Inr [Vertex_eq h xv (VertexRef yv)]))"

definition assess_match :: "bool list \<Rightarrow> bool" where
  "assess_match conditions = list_ex (\<lambda>condition. condition) conditions"

definition assess_compatibility :: "bool list \<Rightarrow> int" where
  "assess_compatibility conditions =
     int (length (filter (\<lambda>condition. condition) conditions))"

definition check_match :: "'a heap \<Rightarrow> nat \<Rightarrow> nat \<Rightarrow> error + (bool \<times> int)" where
  "check_match h x_vertex y_vertex =
     (let (x_conditions, y_conditions) = get_matching_arguments x_vertex y_vertex
      in case get_conditions h x_conditions y_conditions of
           Inl err \<Rightarrow> Inl err
         | Inr conditions \<Rightarrow>
             (let is_match = assess_match conditions;
                  compatibility = assess_compatibility conditions
              in Inr (is_match, compatibility)))"

subsection \<open>Edge construction\<close>

text \<open>The body of the inner loop of \<open>_build_edges\<close>, lines 439 to 445.\<close>

definition build_pair ::
  "bool \<Rightarrow> nat \<Rightarrow> nat \<Rightarrow> 'a heap \<times> 'a matching_graph \<Rightarrow> error + ('a heap \<times> 'a matching_graph)" where
  "build_pair adherence vertex_a vertex_b s =
     (let (h, g) = s;
          vertices = [(vertex_b, vertex_a), (vertex_a, vertex_b)] ! bool_index adherence
      in case check_match h (fst vertices) (snd vertices) of
           Inl err \<Rightarrow> Inl err
         | Inr (is_match, compatibility) \<Rightarrow>
             if is_match
             then (let (e, h') = Edge_init h (fst vertices) (snd vertices) compatibility
                   in Inr (h', g\<lparr>graph_edges := graph_edges g @ [e]\<rparr>))
             else Inr (h, g))"

definition build_edges ::
  "'a heap \<times> 'a matching_graph \<Rightarrow> error + ('a heap \<times> 'a matching_graph)" where
  "build_edges s =
     (let adherence = according_to_x_set (snd s);
          (a_vertices, b_vertices) =
             [(y_vertices (snd s), x_vertices (snd s)),
              (x_vertices (snd s), y_vertices (snd s))] ! bool_index adherence
      in foreach (\<lambda>vertex_a. foreach (build_pair adherence vertex_a) b_vertices) a_vertices s)"

subsection \<open>Match selection\<close>

text \<open>
  \<open>evaluate_match\<close> appends the heaviest edge when it is truthy: None is falsy, and an
  edge object, whose class defines neither \<open>__bool__\<close> nor \<open>__len__\<close>, is truthy.
\<close>

definition evaluate_match ::
  "'a heap \<Rightarrow> nat \<Rightarrow> 'a matching_graph \<Rightarrow> error + 'a matching_graph" where
  "evaluate_match h vertex g =
     (case heaviest_edge h vertex of
        Inl err \<Rightarrow> Inl err
      | Inr None \<Rightarrow> Inr g
      | Inr (Some optimal_match) \<Rightarrow> Inr (g\<lparr>matches := matches g @ [optimal_match]\<rparr>))"

text \<open>
  \<open>match\<close>, lines 455 to 464. The interactive breakpoint of line 461 is not modelled:
  the model is the run in which the debugger is told to continue.
\<close>

definition match :: "'a heap \<Rightarrow> 'a matching_graph \<Rightarrow> error + 'a matching_graph" where
  "match h g =
     (let adherence = according_to_x_set g;
          vertices = [x_vertices g, y_vertices g] ! bool_index adherence
      in foreach (evaluate_match h) vertices g)"

subsection \<open>The constructor\<close>

text \<open>
  \<open>MatchingGraph(x_set, y_set, according_to_x_set=flag)\<close> with every other argument at
  its default. The attributes \<open>x_vertices\<close> and \<open>y_vertices\<close> are first assigned by
  \<open>_initialize_vertices\<close>; the record holds empty lists for them until then. The result
  is the store after construction and the graph object, or the exception that left the
  constructor.
\<close>

definition initial_attributes :: "'a list \<Rightarrow> 'a list \<Rightarrow> bool \<Rightarrow> 'a matching_graph" where
  "initial_attributes xs ys flag =
     \<lparr>x_set = xs, y_set = ys, graph_edges = [], matches = [],
      according_to_x_set = flag,
      vertex_attr_a = [''vertex_1'', ''vertex_2''] ! bool_index flag,
      vertex_attr_b = [''vertex_2'', ''vertex_1''] ! bool_index flag,
      x_vertices = [], y_vertices = []\<rparr>"

definition MatchingGraph_init ::
  "'a heap \<Rightarrow> 'a list \<Rightarrow> 'a list \<Rightarrow> bool \<Rightarrow> error + ('a heap \<times> 'a matching_graph)" where
  "MatchingGraph_init h xs ys flag =
     (case build_edges (initialize_vertices (h, initial_attributes xs ys flag)) of
        Inl err \<Rightarrow> Inl err
      | Inr (h2, g2) \<Rightarrow>
          (case match h2 g2 of
             Inl err \<Rightarrow> Inl err
           | Inr g3 \<Rightarrow> Inr (h2, g3)))"

definition empty_heap :: "'a heap" where
  "empty_heap = \<lparr>vertex_objs = [], edge_objs = []\<rparr>"

subsection \<open>Properties of the graph object\<close>

definition unique_weights :: "'a heap \<Rightarrow> 'a matching_graph \<Rightarrow> int set" where
  "unique_weights h g = set (map (\<lambda>e. weight (edge_objs h ! e)) (graph_edges g))"

text \<open>
  The class body binds the property names in the order of the source, and a later
  binding of a name replaces the earlier one. The name \<open>matched_x_vertices\<close> is bound
  twice, at line 232 and at line 239; no statement of the class binds
  \<open>matched_y_vertices\<close>, and no method assigns an instance attribute of that name.
\<close>

datatype graph_property =
    Matched_x_vertices_line_232
  | Matched_x_vertices_line_239
  | Unmatched_x_vertices
  | Unmatched_y_vertices

definition class_properties :: "(string \<times> graph_property) list" where
  "class_properties =
     [(''matched_x_vertices'', Matched_x_vertices_line_232),
      (''matched_x_vertices'', Matched_x_vertices_line_239),
      (''unmatched_x_vertices'', Unmatched_x_vertices),
      (''unmatched_y_vertices'', Unmatched_y_vertices)]"

definition class_namespace :: "string \<Rightarrow> graph_property option" where
  "class_namespace = map_of (rev class_properties)"

text \<open>
  \<open>vertex in vertices\<close> on a list: some element is the vertex itself or is equal to it
  by \<open>Vertex.__eq__\<close>.
\<close>

definition list_contains :: "'a heap \<Rightarrow> nat list \<Rightarrow> nat \<Rightarrow> bool" where
  "list_contains h vertices vertex =
     list_ex (\<lambda>member. member = vertex \<or> Vertex_eq h member (VertexRef vertex)) vertices"

text \<open>
  A list comprehension \<open>[vertex for vertex in vertices if keep(vertex)]\<close> whose condition
  may raise. The condition is evaluated once for each element, so over an empty list it
  is not evaluated at all.
\<close>

fun comprehension :: "(nat \<Rightarrow> error + bool) \<Rightarrow> nat list \<Rightarrow> error + nat list" where
  "comprehension keep [] = Inr []"
| "comprehension keep (vertex # rest) =
     (case keep vertex of
        Inl err \<Rightarrow> Inl err
      | Inr k \<Rightarrow>
          (case comprehension keep rest of
             Inl err \<Rightarrow> Inl err
           | Inr kept \<Rightarrow> Inr (if k then vertex # kept else kept)))"

text \<open>
  Reading \<open>self.name\<close> looks the name up in the class and evaluates the property found
  there; a name that is not bound raises AttributeError.
\<close>

function (sequential) eval_property ::
  "'a heap \<Rightarrow> 'a matching_graph \<Rightarrow> graph_property \<Rightarrow> error + nat list" where
  "eval_property h g Matched_x_vertices_line_232 =
     Inr (map (\<lambda>e. vertex_1 (edge_objs h ! e)) (matches g))"
| "eval_property h g Matched_x_vertices_line_239 =
     Inr (map (\<lambda>e. vertex_2 (edge_objs h ! e)) (matches g))"
| "eval_property h g Unmatched_x_vertices =
     comprehension
       (\<lambda>vertex.
          case class_namespace ''matched_x_vertices'' of
            None \<Rightarrow> Inl (AttributeError ''matched_x_vertices'')
          | Some p \<Rightarrow>
              (case eval_property h g p of
                 Inl err \<Rightarrow> Inl err
               | Inr matched \<Rightarrow> Inr (\<not> list_contains h matched vertex)))
       (x_vertices g)"
| "eval_property h g Unmatched_y_vertices =
     comprehension
       (\<lambda>vertex.
          case class_namespace ''matched_y_vertices'' of
            None \<Rightarrow> Inl (AttributeError ''matched_y_vertices'')
          | Some p \<Rightarrow>
              (case eval_property h g p of
                 Inl err \<Rightarrow> Inl err
               | Inr matched \<Rightarrow> Inr (\<not> list_contains h matched vertex)))
       (y_vertices g)"
  by pat_completeness auto
termination
  by (relation "measure (\<lambda>(h, g, p). case p of Unmatched_x_vertices \<Rightarrow> 1
                                         | Unmatched_y_vertices \<Rightarrow> 1 | _ \<Rightarrow> 0)")
     (auto simp: class_namespace_def class_properties_def)

definition get_property ::
  "'a heap \<Rightarrow> 'a matching_graph \<Rightarrow> string \<Rightarrow> error + nat list" where
  "get_property h g name =
     (case class_namespace name of
        None \<Rightarrow> Inl (AttributeError name)
      | Some p \<Rightarrow> eval_property h g p)"

section \<open>The vertex invariant and two example stores\<close>

text \<open>Every vertex of the store has as many neighbours as incident edges.\<close>

definition vertex_inv :: "'a heap \<Rightarrow> bool" where
  "vertex_inv h = (\<forall>v \<in> set (vertex_objs h). length (neigbors v) = length (edges v))"

text \<open>
  Two vertices A and B at the addresses 0 and 1, then the edges \<open>Edge(A, B, 5)\<close> and
  \<open>Edge(B, A, 5)\<close> at the addresses 0 and 1.
\<close>

definition two_vertices :: "string heap" where
  "two_vertices = snd (Vertex_init (snd (Vertex_init empty_heap ''A'')) ''B'')"

definition doubly_linked :: "string heap" where
  "doubly_linked = snd (Edge_init (snd (Edge_init two_vertices 0 1 5)) 1 0 5)"

text \<open>
  Every edge that a vertex of the set \<open>V\<close> holds is in the edge list of the graph; and the
  attributes that edge construction leaves as they are.
\<close>

definition edges_known :: "nat set \<Rightarrow> 'a heap \<times> 'a matching_graph \<Rightarrow> bool" where
  "edges_known V s =
     (\<forall>v \<in> V. set (edges (vertex_objs (fst s) ! v)) \<subseteq> set (graph_edges (snd s)))"

definition build_inv ::
  "nat set \<Rightarrow> 'a matching_graph \<Rightarrow> 'a heap \<times> 'a matching_graph \<Rightarrow> bool" where
  "build_inv V g0 s =
     (edges_known V s \<and> x_vertices (snd s) = x_vertices g0 \<and> y_vertices (snd s) = y_vertices g0
      \<and> matches (snd s) = matches g0 \<and> according_to_x_set (snd s) = according_to_x_set g0)"

section \<open>Properties of Edge\<close>

lemma Edge_init_address: "fst (Edge_init h v1 v2 w) = length (edge_objs h)"
  by (simp add: Edge_init_def Let_def)

lemma Edge_init_edge_objs:
  "edge_objs (snd (Edge_init h v1 v2 w)) =
     edge_objs h @ [\<lparr>vertex_1 = v1, vertex_2 = v2, weight = 1\<rparr>]"
  by (simp add: Edge_init_def Let_def add_neighbor_def)

text \<open>
  C1. Whatever the two vertices and whatever weight the caller supplies, the edge that
  the constructor returns has weight 1; so has the edge constructed with the default weight.
\<close>

theorem Edge_init_weight_is_one:
  "weight (edge_objs (snd (Edge_init h v1 v2 w)) ! fst (Edge_init h v1 v2 w)) = 1
   \<and> weight (edge_objs (snd (Edge_init_default h v1 v2)) ! fst (Edge_init_default h v1 v2)) = 1"
  by (simp add: Edge_init_default_def Edge_init_address Edge_init_edge_objs)

section \<open>Comparing edges\<close>

lemma resolve_get_parallels:
  "resolve_name ''_get_parallels'' = Inl (NameError ''_get_parallels'')"
  by (simp add: resolve_name_def module_scope_def)

lemma Edge_lt_raises: "Edge_lt h a (EdgeRef b) = Inl (NameError ''_get_parallels'')"
  by (simp add: resolve_get_parallels)

lemma Edge_eq_raises: "Edge_eq h a (EdgeRef b) = Inl (NameError ''_get_parallels'')"
  by (simp add: resolve_get_parallels)

lemma Edge_gt_raises: "Edge_gt h a b = Inl (NameError ''_get_parallels'')"
  unfolding Edge_gt_def by (rule Edge_lt_raises)

text \<open>
  C4. The two edges \<open>Edge(A, B, w)\<close> and \<open>Edge(B, A, w)\<close>, constructed one after the other
  in any store, do not compare equal: \<open>==\<close> between them raises NameError, because
  \<open>__eq__\<close> calls a name that the module does not bind. The method that looks at the
  unordered pair of endpoints, \<open>get_parallels\<close>, is never reached.
\<close>

theorem Edge_eq_of_reversed_edges_raises:
  "Edge_eq (snd (Edge_init (snd (Edge_init h a b w)) b a w))
           (fst (Edge_init h a b w))
           (EdgeRef (fst (Edge_init (snd (Edge_init h a b w)) b a w)))
   = Inl (NameError ''_get_parallels'')"
  by (rule Edge_eq_raises)

section \<open>The heaviest edge of a vertex\<close>

lemma heaviest_edge_cases:
  "heaviest_edge h v =
     (case edges (vertex_objs h ! v) of
        [] \<Rightarrow> Inr None
      | [e] \<Rightarrow> Inr (Some e)
      | _ \<Rightarrow> Inl (NameError ''_get_parallels''))"
  by (simp add: heaviest_edge_def Edge_gt_raises split: list.splits)

lemma heaviest_edge_two_or_more:
  "2 \<le> length (edges (vertex_objs h ! v)) \<Longrightarrow>
   heaviest_edge h v = Inl (NameError ''_get_parallels'')"
  by (auto simp add: heaviest_edge_cases split: list.splits)

lemma heaviest_edge_returns_iff:
  "(\<exists>r. heaviest_edge h v = Inr r) \<longleftrightarrow> length (edges (vertex_objs h ! v)) \<le> 1"
  by (simp add: heaviest_edge_cases split: list.splits)

lemma heaviest_edge_member:
  "heaviest_edge h v = Inr (Some e) \<Longrightarrow> e \<in> set (edges (vertex_objs h ! v))"
  by (simp add: heaviest_edge_cases split: list.splits)

text \<open>
  C5. The name \<open>_get_parallels\<close> is not bound at module level, so \<open>Edge.__lt__\<close> between
  two edges raises NameError. For a vertex with two or more incident edges
  \<open>heaviest_edge\<close> raises that NameError, which its handler for ValueError does not
  catch; \<open>heaviest_edge\<close> returns a value exactly for the vertices with at most one
  incident edge.
\<close>

theorem heaviest_edge_NameError:
  "resolve_name ''_get_parallels'' = Inl (NameError ''_get_parallels'')
   \<and> Edge_lt h a (EdgeRef b) = Inl (NameError ''_get_parallels'')
   \<and> (2 \<le> length (edges (vertex_objs h ! v)) \<longrightarrow>
        heaviest_edge h v = Inl (NameError ''_get_parallels''))
   \<and> ((\<exists>r. heaviest_edge h v = Inr r) \<longleftrightarrow> length (edges (vertex_objs h ! v)) \<le> 1)"
  using resolve_get_parallels Edge_lt_raises heaviest_edge_two_or_more
    heaviest_edge_returns_iff
  by blast

theorem heaviest_edge_NameError_witness:
  "2 \<le> length (edges (vertex_objs doubly_linked ! 0))
   \<and> heaviest_edge doubly_linked 0 = Inl (NameError ''_get_parallels'')
   \<and> \<not> (\<exists>r. heaviest_edge doubly_linked 0 = Inr r)"
proof -
  have two: "2 \<le> length (edges (vertex_objs doubly_linked ! 0))"
    by code_simp
  from heaviest_edge_NameError [of doubly_linked 0 1 0] two show ?thesis
    by simp
qed

text \<open>
  C6. The vertex A of the store \<open>doubly_linked\<close> has the two incident edges 0 and 1, both
  of weight 1. Its \<open>heaviest_edge\<close> does not return the first of them: it raises
  NameError. A vertex without incident edges does get None.
\<close>

theorem heaviest_edge_of_two_edges:
  "edges (vertex_objs doubly_linked ! 0) = [0, 1]
   \<and> map weight (edge_objs doubly_linked) = [1, 1]
   \<and> heaviest_edge doubly_linked 0 = Inl (NameError ''_get_parallels'')
   \<and> heaviest_edge two_vertices 0 = Inr None"
  by code_simp

section \<open>Match selection and the output surface\<close>

text \<open>
  For every graph: the side that \<open>match\<close> visits and the loops of \<open>_build_edges\<close>, by
  the value of the flag; and what reading the properties gives.
\<close>

lemma match_side:
  "match h g =
     foreach (evaluate_match h) (if according_to_x_set g then y_vertices g else x_vertices g) g"
  by (simp add: match_def bool_index_def)

lemma build_edges_sides:
  "build_edges (h, g) =
     (if according_to_x_set g
      then foreach (\<lambda>vertex_a. foreach (build_pair True vertex_a) (y_vertices g)) (x_vertices g) (h, g)
      else foreach (\<lambda>vertex_a. foreach (build_pair False vertex_a) (x_vertices g)) (y_vertices g) (h, g))"
  by (simp add: build_edges_def bool_index_def)

lemma matched_x_vertices_is_second_definition:
  "get_property h g ''matched_x_vertices'' =
     Inr (map (\<lambda>e. vertex_2 (edge_objs h ! e)) (matches g))"
  by (simp add: get_property_def class_namespace_def class_properties_def)

lemma matched_y_vertices_raises:
  "get_property h g ''matched_y_vertices'' = Inl (AttributeError ''matched_y_vertices'')"
  by (simp add: get_property_def class_namespace_def class_properties_def)

lemma unmatched_y_vertices_raises:
  "y_vertices g \<noteq> [] \<Longrightarrow>
   get_property h g ''unmatched_y_vertices'' = Inl (AttributeError ''matched_y_vertices'')"
  by (cases "y_vertices g")
     (simp_all add: get_property_def class_namespace_def class_properties_def)

text \<open>
  C2. With one item 1 on the x side and two items 1 on the y side, both pairs match
  and the x vertex (address 0) gets two incident edges. With \<open>according_to_x_set\<close> true
  the selection does not visit the x side: it visits the two y vertices and records one
  match for each, so \<open>matches\<close> has two entries although the x side has one vertex. With the
  flag false it visits the x vertex, whose \<open>heaviest_edge\<close> raises NameError.
\<close>

theorem match_selection_side:
  "(case MatchingGraph_init empty_heap [1::nat] [1, 1] True of
      Inl err \<Rightarrow> False
    | Inr (h, g) \<Rightarrow>
        x_vertices g = [0] \<and> y_vertices g = [1, 2] \<and> graph_edges g = [0, 1]
        \<and> map (\<lambda>e. (vertex_1 (edge_objs h ! e), vertex_2 (edge_objs h ! e))) (matches g)
            = [(0, 1), (0, 2)])
   \<and> MatchingGraph_init empty_heap [1::nat] [1, 1] False = Inl (NameError ''_get_parallels'')"
  by code_simp

text \<open>
  C3. For the x items 1, 1 and the y item 1 the two values of the flag do not give the
  same matches: with the flag true the constructor raises NameError, with the flag false
  it returns a graph with two matches.
\<close>

theorem flag_changes_outcome:
  "MatchingGraph_init empty_heap [1::nat, 1] [1] True = Inl (NameError ''_get_parallels'')
   \<and> (case MatchingGraph_init empty_heap [1::nat, 1] [1] False of
         Inl err \<Rightarrow> False
       | Inr (h, g) \<Rightarrow> matches g = [0, 1])"
  by code_simp

text \<open>
  C8. For the x items a, b and the y items a, c the graph has the single match from the
  x vertex 0 to the y vertex 2. Reading \<open>matched_x_vertices\<close> gives the y endpoint 2, since
  the second definition of that name replaced the first; reading \<open>matched_y_vertices\<close>
  raises AttributeError, and so does reading \<open>unmatched_y_vertices\<close>, which needs it.
\<close>

theorem output_surface_example:
  "(case MatchingGraph_init empty_heap [''a'', ''b''] [''a'', ''c''] True of
      Inl err \<Rightarrow> False
    | Inr (h, g) \<Rightarrow>
        x_vertices g = [0, 1] \<and> y_vertices g = [2, 3] \<and> matches g = [0]
        \<and> vertex_1 (edge_objs h ! 0) = 0 \<and> vertex_2 (edge_objs h ! 0) = 2
        \<and> get_property h g ''matched_x_vertices'' = Inr [2]
        \<and> get_property h g ''matched_y_vertices'' = Inl (AttributeError ''matched_y_vertices'')
        \<and> get_property h g ''unmatched_y_vertices'' = Inl (AttributeError ''matched_y_vertices'')
        \<and> get_property h g ''unmatched_x_vertices'' = Inr [1])"
  by code_simp

section \<open>Loops and the effect of the operations on the store\<close>

lemma foreach_preserves:
  assumes step: "\<And>x s s'. x \<in> set xs \<Longrightarrow> P s \<Longrightarrow> body x s = Inr s' \<Longrightarrow> P s'"
    and init: "P s" and run: "foreach body xs s = Inr s'"
  shows "P s'"
  using assms
proof (induction xs arbitrary: s)
  case Nil
  then show ?case by simp
next
  case (Cons x xs)
  from Cons.prems(3) obtain s1 where b: "body x s = Inr s1" and r: "foreach body xs s1 = Inr s'"
    by (auto split: sum.splits)
  have p1: "P s1" by (rule Cons.prems(1)[of x s s1]) (use Cons.prems(2) b in simp_all)
  show ?case
  proof (rule Cons.IH[of s1])
    show "P s1" by (rule p1)
    show "foreach body xs s1 = Inr s'" by (rule r)
  next
    fix y t t'
    assume "y \<in> set xs" "P t" "body y t = Inr t'"
    then show "P t'" using Cons.prems(1)[of y t t'] by simp
  qed
qed

lemma add_neighbor_edge_objs: "edge_objs (add_neighbor h v u e) = edge_objs h"
  by (simp add: add_neighbor_def)

lemma add_neighbor_length: "length (vertex_objs (add_neighbor h v u e)) = length (vertex_objs h)"
  by (simp add: add_neighbor_def)

lemma add_neighbor_nth_other:
  "v \<noteq> x \<Longrightarrow> vertex_objs (add_neighbor h v u e) ! x = vertex_objs h ! x"
  by (simp add: add_neighbor_def)

lemma add_neighbor_nth_self:
  "v < length (vertex_objs h) \<Longrightarrow>
   vertex_objs (add_neighbor h v u e) ! v =
     (vertex_objs h ! v)\<lparr>neigbors := neigbors (vertex_objs h ! v) @ [u],
                           edges := edges (vertex_objs h ! v) @ [e]\<rparr>"
  by (simp add: add_neighbor_def)

lemma add_neighbor_beyond:
  "\<not> v < length (vertex_objs h) \<Longrightarrow> vertex_objs (add_neighbor h v u e) = vertex_objs h"
  by (simp add: add_neighbor_def not_less list_update_beyond)

lemma add_neighbor_item:
  "item (vertex_objs (add_neighbor h v u e) ! x) = item (vertex_objs h ! x)"
proof (cases "v = x \<and> v < length (vertex_objs h)")
  case True
  then show ?thesis by (simp add: add_neighbor_nth_self)
next
  case False
  then show ?thesis
    by (cases "v = x") (simp_all add: add_neighbor_nth_other add_neighbor_beyond)
qed

lemma add_neighbor_edges_subset:
  "set (edges (vertex_objs (add_neighbor h v u e) ! x)) \<subseteq> insert e (set (edges (vertex_objs h ! x)))"
proof (cases "v = x \<and> v < length (vertex_objs h)")
  case True
  then show ?thesis by (auto simp add: add_neighbor_nth_self)
next
  case False
  then show ?thesis
    by (cases "v = x") (auto simp add: add_neighbor_nth_other add_neighbor_beyond)
qed

lemma add_neighbor_inv: "vertex_inv h \<Longrightarrow> vertex_inv (add_neighbor h v u e)"
proof (cases "v < length (vertex_objs h)")
  case True
  assume inv: "vertex_inv h"
  let ?new = "(vertex_objs h ! v)\<lparr>neigbors := neigbors (vertex_objs h ! v) @ [u],
                           edges := edges (vertex_objs h ! v) @ [e]\<rparr>"
  have old: "length (neigbors (vertex_objs h ! v)) = length (edges (vertex_objs h ! v))"
    using inv True by (simp add: vertex_inv_def)
  have "set (vertex_objs (add_neighbor h v u e)) \<subseteq> insert ?new (set (vertex_objs h))"
    by (simp add: add_neighbor_def set_update_subset_insert)
  then show ?thesis using inv old by (auto simp: vertex_inv_def)
next
  case False
  assume "vertex_inv h"
  then show ?thesis using False by (simp add: vertex_inv_def add_neighbor_beyond)
qed

text \<open>The store after \<open>Edge.__init__\<close>, as the two registrations on the endpoints.\<close>

lemma Edge_init_heap:
  "snd (Edge_init h v1 v2 w) =
     add_neighbor (add_neighbor
        (h\<lparr>edge_objs := edge_objs h @ [\<lparr>vertex_1 = v1, vertex_2 = v2, weight = 1\<rparr>]\<rparr>)
        v1 v2 (length (edge_objs h))) v2 v1 (length (edge_objs h))"
  by (simp add: Edge_init_def Let_def)

lemma Edge_init_inv: "vertex_inv h \<Longrightarrow> vertex_inv (snd (Edge_init h v1 v2 w))"
proof -
  assume inv: "vertex_inv h"
  have "vertex_inv (h\<lparr>edge_objs := edge_objs h @ [\<lparr>vertex_1 = v1, vertex_2 = v2, weight = 1\<rparr>]\<rparr>)"
    using inv by (simp add: vertex_inv_def)
  then show ?thesis
    unfolding Edge_init_heap by (intro add_neighbor_inv)
qed

lemma Edge_init_item:
  "item (vertex_objs (snd (Edge_init h v1 v2 w)) ! x) = item (vertex_objs h ! x)"
  by (simp add: Edge_init_heap add_neighbor_item)

lemma Edge_init_edges_subset:
  "set (edges (vertex_objs (snd (Edge_init h v1 v2 w)) ! x))
     \<subseteq> insert (length (edge_objs h)) (set (edges (vertex_objs h ! x)))"
proof -
  let ?e = "length (edge_objs h)"
  let ?h1 = "h\<lparr>edge_objs := edge_objs h @ [\<lparr>vertex_1 = v1, vertex_2 = v2, weight = 1\<rparr>]\<rparr>"
  let ?h2 = "add_neighbor ?h1 v1 v2 ?e"
  have a: "set (edges (vertex_objs ?h2 ! x)) \<subseteq> insert ?e (set (edges (vertex_objs h ! x)))"
    using add_neighbor_edges_subset[of ?h1 v1 v2 ?e x] by simp
  have b: "set (edges (vertex_objs (add_neighbor ?h2 v2 v1 ?e) ! x)) \<subseteq> insert ?e (set (edges (vertex_objs ?h2 ! x)))"
    by (rule add_neighbor_edges_subset)
  from a b show ?thesis unfolding Edge_init_heap by blast
qed

lemma Vertex_init_inv: "vertex_inv h \<Longrightarrow> vertex_inv (snd (Vertex_init h it))"
  by (simp add: vertex_inv_def Vertex_init_def)

lemma add_weight_inv: "vertex_inv h \<Longrightarrow> vertex_inv (add_weight h e w)"
  by (simp add: vertex_inv_def add_weight_def)

lemma make_vertices_inv: "vertex_inv h \<Longrightarrow> vertex_inv (snd (make_vertices h its))"
proof (induction its arbitrary: h)
  case Nil
  then show ?case by simp
next
  case (Cons it its)
  have "vertex_inv (snd (Vertex_init h it))" using Cons.prems by (rule Vertex_init_inv)
  from Cons.IH[OF this] show ?case
    by (auto simp add: Vertex_init_def split: prod.splits)
qed

lemma initialize_vertices_inv:
  "vertex_inv h \<Longrightarrow> vertex_inv (fst (initialize_vertices (h, g)))"
proof -
  assume inv: "vertex_inv h"
  have "vertex_inv (snd (make_vertices (snd (make_vertices h (x_set g))) (y_set g)))"
    by (intro make_vertices_inv inv)
  then show ?thesis
    by (auto simp add: initialize_vertices_def split: prod.splits)
qed

section \<open>Edge construction and the vertex invariant\<close>

lemma check_match_default:
  "check_match h x y =
     Inr (item (vertex_objs h ! x) = item (vertex_objs h ! y),
          if item (vertex_objs h ! x) = item (vertex_objs h ! y) then 1 else 0)"
  by (simp add: check_match_def get_matching_arguments_def get_x_set_condition_values_def
      get_y_set_condition_values_def get_conditions_def dict_get_def assess_match_def
      assess_compatibility_def Let_def)

lemma build_pair_eq:
  "build_pair adh a b (h, g) =
     (if item (vertex_objs h ! a) = item (vertex_objs h ! b)
      then Inr (snd (Edge_init h (if adh then a else b) (if adh then b else a) 1),
                g\<lparr>graph_edges := graph_edges g @ [length (edge_objs h)]\<rparr>)
      else Inr (h, g))"
  by (cases adh)
     (auto simp add: build_pair_def bool_index_def check_match_default Let_def
        case_prod_beta Edge_init_address)

lemma build_pair_inv:
  "vertex_inv (fst s) \<Longrightarrow> build_pair adh a b s = Inr s' \<Longrightarrow> vertex_inv (fst s')"
  by (cases s) (auto simp add: build_pair_eq Edge_init_inv split: if_splits)

lemma build_loops_inv:
  assumes "vertex_inv (fst s)"
    and "foreach (\<lambda>a. foreach (build_pair adh a) bs) as s = Inr s'"
  shows "vertex_inv (fst s')"
proof (rule foreach_preserves[where P = "\<lambda>s. vertex_inv (fst s)", OF _ assms(1) assms(2)])
  fix a t t'
  assume t: "vertex_inv (fst t)" and run: "foreach (build_pair adh a) bs t = Inr t'"
  show "vertex_inv (fst t')"
    by (rule foreach_preserves[where P = "\<lambda>s. vertex_inv (fst s)", OF _ t run])
       (rule build_pair_inv)
qed

lemma build_edges_inv:
  "vertex_inv (fst s) \<Longrightarrow> build_edges s = Inr s' \<Longrightarrow> vertex_inv (fst s')"
  unfolding build_edges_def Let_def case_prod_beta by (rule build_loops_inv)

lemma MatchingGraph_init_inv:
  assumes "vertex_inv h" and "MatchingGraph_init h xs ys flag = Inr (h', g')"
  shows "vertex_inv h'"
proof -
  let ?s = "initialize_vertices (h, initial_attributes xs ys flag)"
  from assms(2) obtain g2 where b: "build_edges ?s = Inr (h', g2)"
    by (auto simp add: MatchingGraph_init_def split: sum.splits prod.splits)
  have "vertex_inv (fst ?s)" by (rule initialize_vertices_inv[OF assms(1)])
  from build_edges_inv[OF this b] show ?thesis by simp
qed

lemma Edge_init_registers:
  assumes "v1 < length (vertex_objs h)" "v2 < length (vertex_objs h)" "v1 \<noteq> v2"
  shows "neigbors (vertex_objs (snd (Edge_init h v1 v2 w)) ! v1) = neigbors (vertex_objs h ! v1) @ [v2]"
    and "edges (vertex_objs (snd (Edge_init h v1 v2 w)) ! v1) = edges (vertex_objs h ! v1) @ [length (edge_objs h)]"
    and "neigbors (vertex_objs (snd (Edge_init h v1 v2 w)) ! v2) = neigbors (vertex_objs h ! v2) @ [v1]"
    and "edges (vertex_objs (snd (Edge_init h v1 v2 w)) ! v2) = edges (vertex_objs h ! v2) @ [length (edge_objs h)]"
  using assms
  by (simp_all add: Edge_init_heap add_neighbor_nth_self add_neighbor_nth_other add_neighbor_length)

lemma Edge_init_registers_loop:
  assumes "v < length (vertex_objs h)"
  shows "neigbors (vertex_objs (snd (Edge_init h v v w)) ! v) = neigbors (vertex_objs h ! v) @ [v, v]"
    and "edges (vertex_objs (snd (Edge_init h v v w)) ! v) = edges (vertex_objs h ! v) @ [length (edge_objs h), length (edge_objs h)]"
  using assms
  by (simp_all add: Edge_init_heap add_neighbor_nth_self add_neighbor_length)


text \<open>
  C9. Constructing an edge between two vertices of the store appends the opposite vertex
  to the neighbours of each endpoint and the new edge to the edges of each endpoint (an
  edge from a vertex to itself is appended twice to that vertex). The invariant that every
  vertex has as many neighbours as edges is preserved by the creation of a vertex, by
  \<open>add_neighbor\<close>, by the construction of an edge, by \<open>add_weight\<close>, by the vertex and edge
  phases of the graph constructor, and by the graph constructor as a whole.
\<close>

theorem vertex_invariant_preserved:
  "(v1 < length (vertex_objs h) \<and> v2 < length (vertex_objs h) \<and> v1 \<noteq> v2 \<longrightarrow>
      neigbors (vertex_objs (snd (Edge_init h v1 v2 w)) ! v1) = neigbors (vertex_objs h ! v1) @ [v2]
    \<and> edges (vertex_objs (snd (Edge_init h v1 v2 w)) ! v1)
        = edges (vertex_objs h ! v1) @ [fst (Edge_init h v1 v2 w)]
    \<and> neigbors (vertex_objs (snd (Edge_init h v1 v2 w)) ! v2) = neigbors (vertex_objs h ! v2) @ [v1]
    \<and> edges (vertex_objs (snd (Edge_init h v1 v2 w)) ! v2)
        = edges (vertex_objs h ! v2) @ [fst (Edge_init h v1 v2 w)])
   \<and> (v1 < length (vertex_objs h) \<longrightarrow>
      neigbors (vertex_objs (snd (Edge_init h v1 v1 w)) ! v1) = neigbors (vertex_objs h ! v1) @ [v1, v1]
    \<and> edges (vertex_objs (snd (Edge_init h v1 v1 w)) ! v1)
        = edges (vertex_objs h ! v1) @ [fst (Edge_init h v1 v1 w), fst (Edge_init h v1 v1 w)])
   \<and> (vertex_inv h \<longrightarrow>
        vertex_inv (snd (Vertex_init h it))
      \<and> vertex_inv (add_neighbor h v u e)
      \<and> vertex_inv (snd (Edge_init h v1 v2 w))
      \<and> vertex_inv (add_weight h e amount)
      \<and> vertex_inv (fst (initialize_vertices (h, g)))
      \<and> (\<forall>s'. build_edges (initialize_vertices (h, g)) = Inr s' \<longrightarrow> vertex_inv (fst s'))
      \<and> (\<forall>h' g'. MatchingGraph_init h xs ys flag = Inr (h', g') \<longrightarrow> vertex_inv h'))"
proof (intro conjI impI allI)
  assume inv: "vertex_inv h"
  show "vertex_inv (snd (Vertex_init h it))" by (rule Vertex_init_inv[OF inv])
  show "vertex_inv (add_neighbor h v u e)" by (rule add_neighbor_inv[OF inv])
  show "vertex_inv (snd (Edge_init h v1 v2 w))" by (rule Edge_init_inv[OF inv])
  show "vertex_inv (add_weight h e amount)" by (rule add_weight_inv[OF inv])
  show i: "vertex_inv (fst (initialize_vertices (h, g)))"
    by (rule initialize_vertices_inv[OF inv])
  show "vertex_inv (fst s')" if "build_edges (initialize_vertices (h, g)) = Inr s'" for s'
    by (rule build_edges_inv[OF i that])
  show "vertex_inv h'" if "MatchingGraph_init h xs ys flag = Inr (h', g')" for h' g'
    by (rule MatchingGraph_init_inv[OF inv that])
qed (simp_all add: Edge_init_registers Edge_init_registers_loop Edge_init_address)

theorem vertex_invariant_preserved_witness:
  "vertex_inv two_vertices
   \<and> neigbors (vertex_objs (snd (Edge_init two_vertices 0 1 5)) ! 0) = [1]
   \<and> edges (vertex_objs (snd (Edge_init two_vertices 0 1 5)) ! 1) = [0]
   \<and> vertex_inv (snd (Edge_init two_vertices 0 1 5))
   \<and> (case MatchingGraph_init two_vertices [''a'', ''b''] [''b'', ''a''] True of
         Inl err \<Rightarrow> False
       | Inr (h', g') \<Rightarrow> vertex_inv h' \<and> length (vertex_objs h') = 6 \<and> length (edge_objs h') = 2)"
proof -
  have inv: "vertex_inv two_vertices" by code_simp
  have len: "(0::nat) < length (vertex_objs two_vertices) \<and> 1 < length (vertex_objs two_vertices) \<and> (0::nat) \<noteq> 1"
    by code_simp
  have old: "neigbors (vertex_objs two_vertices ! 0) = [] \<and> edges (vertex_objs two_vertices ! 1) = []
      \<and> edge_objs two_vertices = []"
    by code_simp
  have size: "case MatchingGraph_init two_vertices [''a'', ''b''] [''b'', ''a''] True of
         Inl err \<Rightarrow> False
       | Inr (h', g') \<Rightarrow> length (vertex_objs h') = 6 \<and> length (edge_objs h') = 2"
    by code_simp
  note inst = vertex_invariant_preserved
    [of 0 two_vertices 1 5 "''A''" 0 1 0 0 "initial_attributes [] [] True"
        "[''a'', ''b'']" "[''b'', ''a'']" True]
  from inst inv len old size show ?thesis
    by (auto simp add: Edge_init_address split: sum.splits)
qed

section \<open>The vertices of a new graph\<close>

lemma make_vertices_store:
  "vertex_objs (snd (make_vertices h its)) =
     vertex_objs h @ map (\<lambda>it. \<lparr>item = it, neigbors = [], edges = []\<rparr>) its"
  by (induction its arbitrary: h) (simp_all add: Vertex_init_def case_prod_beta)

lemma make_vertices_addresses:
  "fst (make_vertices h its) =
     [length (vertex_objs h) ..< length (vertex_objs h) + length its]"
proof (induction its arbitrary: h)
  case Nil
  then show ?case by simp
next
  case (Cons it its)
  let ?n = "length (vertex_objs h)"
  have range: "[?n ..< ?n + length (it # its)] = ?n # [Suc ?n ..< Suc ?n + length its]"
    by (subst upt_rec) simp
  have "fst (make_vertices h (it # its)) = ?n # fst (make_vertices (snd (Vertex_init h it)) its)"
    by (simp add: Vertex_init_def case_prod_beta)
  also have "fst (make_vertices (snd (Vertex_init h it)) its) = [Suc ?n ..< Suc ?n + length its]"
    unfolding Cons.IH by (simp add: Vertex_init_def)
  finally show ?case unfolding range .
qed

lemma make_vertices_edge_objs: "edge_objs (snd (make_vertices h its)) = edge_objs h"
  by (induction its arbitrary: h) (simp_all add: Vertex_init_def case_prod_beta)

lemma initialize_vertices_eq:
  "initialize_vertices (h, g) =
     (snd (make_vertices (snd (make_vertices h (x_set g))) (y_set g)),
      g\<lparr>x_vertices := fst (make_vertices h (x_set g)),
        y_vertices := fst (make_vertices (snd (make_vertices h (x_set g))) (y_set g))\<rparr>)"
  by (simp add: initialize_vertices_def case_prod_beta)

lemma initialize_vertices_store:
  "vertex_objs (fst (initialize_vertices (h, g))) =
     vertex_objs h @ map (\<lambda>it. \<lparr>item = it, neigbors = [], edges = []\<rparr>) (x_set g @ y_set g)"
  by (simp add: initialize_vertices_eq make_vertices_store)

lemma initialize_vertices_x:
  "x_vertices (snd (initialize_vertices (h, g))) =
     [length (vertex_objs h) ..< length (vertex_objs h) + length (x_set g)]"
  by (simp add: initialize_vertices_eq make_vertices_addresses)

lemma initialize_vertices_y:
  "y_vertices (snd (initialize_vertices (h, g))) =
     [length (vertex_objs h) + length (x_set g)
        ..< length (vertex_objs h) + length (x_set g) + length (y_set g)]"
  by (simp add: initialize_vertices_eq make_vertices_addresses make_vertices_store)

lemma initialize_vertices_fields:
  "graph_edges (snd (initialize_vertices (h, g))) = graph_edges g"
  "matches (snd (initialize_vertices (h, g))) = matches g"
  "according_to_x_set (snd (initialize_vertices (h, g))) = according_to_x_set g"
  "x_set (snd (initialize_vertices (h, g))) = x_set g"
  "y_set (snd (initialize_vertices (h, g))) = y_set g"
  by (simp_all add: initialize_vertices_eq)

lemma new_vertex_nth:
  assumes "i < length its"
  shows "(vs @ map (\<lambda>it. \<lparr>item = it, neigbors = [], edges = []\<rparr>) its) ! (length vs + i)
           = \<lparr>item = its ! i, neigbors = [], edges = []\<rparr>"
  using assms by (simp add: nth_append)

lemma initialize_vertices_fresh:
  assumes "v \<in> set (x_vertices (snd (initialize_vertices (h, g))))
             \<union> set (y_vertices (snd (initialize_vertices (h, g))))"
  shows "edges (vertex_objs (fst (initialize_vertices (h, g))) ! v) = []"
proof -
  let ?n = "length (vertex_objs h)"
  from assms have "?n \<le> v \<and> v < ?n + length (x_set g @ y_set g)"
    by (auto simp add: initialize_vertices_x initialize_vertices_y)
  then obtain i where v: "v = ?n + i" and i: "i < length (x_set g @ y_set g)"
    by (metis add_diff_inverse_nat nat_add_left_cancel_less not_less)
  show ?thesis
    unfolding initialize_vertices_store v using new_vertex_nth[OF i, of "vertex_objs h"]
    by simp
qed

section \<open>Matches are edges of the graph\<close>

lemma build_pair_fields:
  assumes "build_pair adh a b s = Inr s'"
  shows "x_vertices (snd s') = x_vertices (snd s)"
    and "y_vertices (snd s') = y_vertices (snd s)"
    and "matches (snd s') = matches (snd s)"
    and "according_to_x_set (snd s') = according_to_x_set (snd s)"
  using assms by (cases s; auto simp add: build_pair_eq split: if_splits)+

lemma build_pair_edges_known:
  assumes "edges_known V s" and "build_pair adh a b s = Inr s'"
  shows "edges_known V s'"
proof (cases s)
  case (Pair h g)
  show ?thesis
  proof (cases "item (vertex_objs h ! a) = item (vertex_objs h ! b)")
    case False
    with assms Pair show ?thesis by (simp add: build_pair_eq)
  next
    case True
    let ?x = "if adh then a else b" and ?y = "if adh then b else a"
    from assms(2) Pair True
    have s': "s' = (snd (Edge_init h ?x ?y 1), g\<lparr>graph_edges := graph_edges g @ [length (edge_objs h)]\<rparr>)"
      by (simp add: build_pair_eq)
    show ?thesis
      unfolding edges_known_def
    proof
      fix v assume v: "v \<in> V"
      have "set (edges (vertex_objs (fst s') ! v))
              \<subseteq> insert (length (edge_objs h)) (set (edges (vertex_objs h ! v)))"
        unfolding s' using Edge_init_edges_subset[of h ?x ?y 1 v] by simp
      moreover have "set (edges (vertex_objs h ! v)) \<subseteq> set (graph_edges g)"
        using assms(1) v Pair by (simp add: edges_known_def)
      ultimately show "set (edges (vertex_objs (fst s') ! v)) \<subseteq> set (graph_edges (snd s'))"
        unfolding s' by auto
    qed
  qed
qed

lemma build_pair_build_inv:
  "build_inv V g0 s \<Longrightarrow> build_pair adh a b s = Inr s' \<Longrightarrow> build_inv V g0 s'"
  unfolding build_inv_def
  using build_pair_edges_known[of V s adh a b s'] build_pair_fields[of adh a b s s']
  by simp

lemma build_edges_build_inv:
  assumes "build_inv V g0 s" and "build_edges s = Inr s'"
  shows "build_inv V g0 s'"
proof -
  let ?adh = "according_to_x_set (snd s)"
  let ?ab = "[(y_vertices (snd s), x_vertices (snd s)),
              (x_vertices (snd s), y_vertices (snd s))] ! bool_index ?adh"
  from assms(2) have run:
    "foreach (\<lambda>a. foreach (build_pair ?adh a) (snd ?ab)) (fst ?ab) s = Inr s'"
    by (simp add: build_edges_def Let_def case_prod_beta)
  show ?thesis
  proof (rule foreach_preserves[where P = "build_inv V g0", OF _ assms(1) run])
    fix a t t'
    assume t: "build_inv V g0 t" and inner: "foreach (build_pair ?adh a) (snd ?ab) t = Inr t'"
    show "build_inv V g0 t'"
      by (rule foreach_preserves[where P = "build_inv V g0", OF _ t inner])
         (rule build_pair_build_inv)
  qed
qed

lemma evaluate_match_cases:
  assumes "evaluate_match h v g = Inr g'"
  shows "g' = g \<or> (\<exists>e \<in> set (edges (vertex_objs h ! v)). g' = g\<lparr>matches := matches g @ [e]\<rparr>)"
  using assms heaviest_edge_member[of h v]
  by (auto simp add: evaluate_match_def split: sum.splits option.splits)

lemma match_subset:
  assumes known: "edges_known (set (x_vertices g) \<union> set (y_vertices g)) (h, g)"
    and sub: "set (matches g) \<subseteq> set (graph_edges g)"
    and run: "match h g = Inr g'"
  shows "set (matches g') \<subseteq> set (graph_edges g') \<and> graph_edges g' = graph_edges g"
proof -
  let ?vs = "[x_vertices g, y_vertices g] ! bool_index (according_to_x_set g)"
  let ?P = "\<lambda>t. set (matches t) \<subseteq> set (graph_edges g) \<and> graph_edges t = graph_edges g"
  have vs: "set ?vs \<subseteq> set (x_vertices g) \<union> set (y_vertices g)"
    by (auto simp add: bool_index_def)
  from run have loop: "foreach (evaluate_match h) ?vs g = Inr g'"
    by (simp add: match_def Let_def)
  have "?P g'"
  proof (rule foreach_preserves[where P = ?P, OF _ _ loop])
    show "?P g" using sub by simp
  next
    fix v t t'
    assume v: "v \<in> set ?vs" and t: "?P t" and step: "evaluate_match h v t = Inr t'"
    from v vs known have "set (edges (vertex_objs h ! v)) \<subseteq> set (graph_edges g)"
      by (auto simp add: edges_known_def)
    with evaluate_match_cases[OF step] t show "?P t'" by auto
  qed
  then show ?thesis by simp
qed


text \<open>
  C10. In every graph that the constructor returns, each edge of \<open>matches\<close> is one of the
  edges of \<open>edges\<close> (the same object, that is, the same address).
\<close>

theorem matches_subset_edges:
  assumes "MatchingGraph_init h xs ys flag = Inr (h', g)"
  shows "set (matches g) \<subseteq> set (graph_edges g)"
proof -
  let ?s0 = "initialize_vertices (h, initial_attributes xs ys flag)"
  let ?V = "set (x_vertices (snd ?s0)) \<union> set (y_vertices (snd ?s0))"
  from assms obtain g2 where built: "build_edges ?s0 = Inr (h', g2)"
    and matched: "match h' g2 = Inr g"
    by (auto simp add: MatchingGraph_init_def split: sum.splits prod.splits)
  have "edges_known ?V ?s0"
    unfolding edges_known_def
    using initialize_vertices_fresh[of _ h "initial_attributes xs ys flag"] by simp
  then have "build_inv ?V (snd ?s0) ?s0" by (simp add: build_inv_def)
  from build_edges_build_inv[OF this built]
  have known: "edges_known ?V (h', g2)" and xs: "x_vertices g2 = x_vertices (snd ?s0)"
    and ys: "y_vertices g2 = y_vertices (snd ?s0)" and ms: "matches g2 = matches (snd ?s0)"
    by (simp_all add: build_inv_def)
  have "matches g2 = []"
    unfolding ms by (simp add: initialize_vertices_fields initial_attributes_def)
  then have sub: "set (matches g2) \<subseteq> set (graph_edges g2)" by simp
  from known have "edges_known (set (x_vertices g2) \<union> set (y_vertices g2)) (h', g2)"
    unfolding xs ys .
  from match_subset[OF this sub matched] show ?thesis by (rule conjunct1)
qed

theorem matches_subset_edges_witness:
  "case MatchingGraph_init empty_heap [1::nat, 2] [2, 1] True of
     Inl err \<Rightarrow> False
   | Inr (h', g) \<Rightarrow>
       matches g = [1, 0] \<and> graph_edges g = [0, 1]
       \<and> set (matches g) \<subseteq> set (graph_edges g)"
proof -
  have run: "case MatchingGraph_init empty_heap [1::nat, 2] [2, 1] True of
     Inl err \<Rightarrow> False
   | Inr (h', g) \<Rightarrow> matches g = [1, 0] \<and> graph_edges g = [0, 1]"
    by code_simp
  then obtain h' g where ok: "MatchingGraph_init empty_heap [1::nat, 2] [2, 1] True = Inr (h', g)"
    by (auto split: sum.splits)
  from matches_subset_edges[OF ok] run ok show ?thesis by simp
qed

section \<open>The number of edges\<close>

lemma build_pair_count:
  "\<exists>h1 g1. build_pair adh a b (h, g) = Inr (h1, g1)
     \<and> (\<forall>v. item (vertex_objs h1 ! v) = item (vertex_objs h ! v))
     \<and> length (graph_edges g1) =
         length (graph_edges g)
         + (if item (vertex_objs h ! a) = item (vertex_objs h ! b) then 1 else 0)"
  by (simp add: build_pair_eq Edge_init_item)

lemma inner_loop_count:
  "\<exists>h' g'. foreach (build_pair adh a) bs (h, g) = Inr (h', g')
     \<and> (\<forall>v. item (vertex_objs h' ! v) = item (vertex_objs h ! v))
     \<and> length (graph_edges g') =
         length (graph_edges g)
         + length (filter (\<lambda>b. item (vertex_objs h ! a) = item (vertex_objs h ! b)) bs)"
proof (induction bs arbitrary: h g)
  case Nil
  then show ?case by simp
next
  case (Cons b bs)
  from build_pair_count[of adh a b h g] obtain h1 g1 where
    step: "build_pair adh a b (h, g) = Inr (h1, g1)"
    and items1: "\<forall>v. item (vertex_objs h1 ! v) = item (vertex_objs h ! v)"
    and len1: "length (graph_edges g1) =
         length (graph_edges g)
         + (if item (vertex_objs h ! a) = item (vertex_objs h ! b) then 1 else 0)"
    by blast
  from Cons.IH[of h1 g1] obtain h' g' where
    rest: "foreach (build_pair adh a) bs (h1, g1) = Inr (h', g')"
    and items2: "\<forall>v. item (vertex_objs h' ! v) = item (vertex_objs h1 ! v)"
    and len2: "length (graph_edges g') =
         length (graph_edges g1)
         + length (filter (\<lambda>b. item (vertex_objs h1 ! a) = item (vertex_objs h1 ! b)) bs)"
    by blast
  have "foreach (build_pair adh a) (b # bs) (h, g) = Inr (h', g')"
    using step rest by simp
  moreover have "\<forall>v. item (vertex_objs h' ! v) = item (vertex_objs h ! v)"
    using items1 items2 by simp
  moreover have "length (graph_edges g') =
         length (graph_edges g)
         + length (filter (\<lambda>b. item (vertex_objs h ! a) = item (vertex_objs h ! b)) (b # bs))"
    using len1 len2 items1 by simp
  ultimately show ?case by blast
qed

lemma outer_loop_count:
  "\<exists>h' g'. foreach (\<lambda>a. foreach (build_pair adh a) bs) as (h, g) = Inr (h', g')
     \<and> (\<forall>v. item (vertex_objs h' ! v) = item (vertex_objs h ! v))
     \<and> length (graph_edges g') =
         length (graph_edges g)
         + length (filter (\<lambda>(a, b). item (vertex_objs h ! a) = item (vertex_objs h ! b))
                     (List.product as bs))"
proof (induction as arbitrary: h g)
  case Nil
  then show ?case by simp
next
  case (Cons a as)
  from inner_loop_count[of adh a bs h g] obtain h1 g1 where
    step: "foreach (build_pair adh a) bs (h, g) = Inr (h1, g1)"
    and items1: "\<forall>v. item (vertex_objs h1 ! v) = item (vertex_objs h ! v)"
    and len1: "length (graph_edges g1) =
         length (graph_edges g)
         + length (filter (\<lambda>b. item (vertex_objs h ! a) = item (vertex_objs h ! b)) bs)"
    by blast
  from Cons.IH[of h1 g1] obtain h' g' where
    rest: "foreach (\<lambda>a. foreach (build_pair adh a) bs) as (h1, g1) = Inr (h', g')"
    and items2: "\<forall>v. item (vertex_objs h' ! v) = item (vertex_objs h1 ! v)"
    and len2: "length (graph_edges g') =
         length (graph_edges g1)
         + length (filter (\<lambda>(a, b). item (vertex_objs h1 ! a) = item (vertex_objs h1 ! b))
                     (List.product as bs))"
    by blast
  have "foreach (\<lambda>a. foreach (build_pair adh a) bs) (a # as) (h, g) = Inr (h', g')"
    using step rest by simp
  moreover have "\<forall>v. item (vertex_objs h' ! v) = item (vertex_objs h ! v)"
    using items1 items2 by simp
  moreover have "length (graph_edges g') =
         length (graph_edges g)
         + length (filter (\<lambda>(a, b). item (vertex_objs h ! a) = item (vertex_objs h ! b))
                     (List.product (a # as) bs))"
    using len1 len2 items1 by (simp add: filter_map o_def)
  ultimately show ?case by blast
qed

text \<open>Counting pairs: through a map on each side, and with the two sides exchanged.\<close>

lemma count_pairs_map:
  "length (filter (\<lambda>(x, y). R x y) (List.product (map f as) (map f' bs))) =
   length (filter (\<lambda>(a, b). R (f a) (f' b)) (List.product as bs))"
  by (induction as) (simp_all add: filter_map o_def)

lemma count_pairs_Cons_right:
  "length (filter (\<lambda>(a, b). R a b) (List.product as (b # bs))) =
   length (filter (\<lambda>a. R a b) as) + length (filter (\<lambda>(a, b). R a b) (List.product as bs))"
  by (induction as) (simp_all add: filter_map o_def)

lemma count_pairs_swap:
  "length (filter (\<lambda>(b, a). R a b) (List.product bs as)) =
   length (filter (\<lambda>(a, b). R a b) (List.product as bs))"
  by (induction bs) (simp_all add: filter_map o_def count_pairs_Cons_right)

lemma initialize_vertices_x_items:
  "map (\<lambda>v. item (vertex_objs (fst (initialize_vertices (h, g))) ! v))
       (x_vertices (snd (initialize_vertices (h, g)))) = x_set g"
proof (rule nth_equalityI)
  show "length (map (\<lambda>v. item (vertex_objs (fst (initialize_vertices (h, g))) ! v))
           (x_vertices (snd (initialize_vertices (h, g))))) = length (x_set g)"
    by (simp add: initialize_vertices_x)
next
  fix i
  assume "i < length (map (\<lambda>v. item (vertex_objs (fst (initialize_vertices (h, g))) ! v))
           (x_vertices (snd (initialize_vertices (h, g)))))"
  then have i: "i < length (x_set g)" by (simp add: initialize_vertices_x)
  then have i': "i < length (x_set g @ y_set g)" by simp
  show "map (\<lambda>v. item (vertex_objs (fst (initialize_vertices (h, g))) ! v))
           (x_vertices (snd (initialize_vertices (h, g)))) ! i = x_set g ! i"
    using i new_vertex_nth[OF i', of "vertex_objs h"]
    by (simp add: initialize_vertices_x initialize_vertices_store nth_append)
qed

lemma initialize_vertices_y_items:
  "map (\<lambda>v. item (vertex_objs (fst (initialize_vertices (h, g))) ! v))
       (y_vertices (snd (initialize_vertices (h, g)))) = y_set g"
proof (rule nth_equalityI)
  show "length (map (\<lambda>v. item (vertex_objs (fst (initialize_vertices (h, g))) ! v))
           (y_vertices (snd (initialize_vertices (h, g))))) = length (y_set g)"
    by (simp add: initialize_vertices_y)
next
  fix i
  assume "i < length (map (\<lambda>v. item (vertex_objs (fst (initialize_vertices (h, g))) ! v))
           (y_vertices (snd (initialize_vertices (h, g)))))"
  then have i: "i < length (y_set g)" by (simp add: initialize_vertices_y)
  then have i': "length (x_set g) + i < length (x_set g @ y_set g)" by simp
  show "map (\<lambda>v. item (vertex_objs (fst (initialize_vertices (h, g))) ! v))
           (y_vertices (snd (initialize_vertices (h, g)))) ! i = y_set g ! i"
    using i new_vertex_nth[OF i', of "vertex_objs h"]
    by (simp add: initialize_vertices_y initialize_vertices_store nth_append add.assoc)
qed


lemma build_edges_count:
  "\<exists>h' g'. build_edges s = Inr (h', g')
     \<and> length (graph_edges g') =
         length (graph_edges (snd s))
         + length (filter (\<lambda>(x, y). x = y)
             (List.product (map (\<lambda>v. item (vertex_objs (fst s) ! v)) (x_vertices (snd s)))
                           (map (\<lambda>v. item (vertex_objs (fst s) ! v)) (y_vertices (snd s)))))"
proof (cases "according_to_x_set (snd s)")
  case True
  let ?X = "x_vertices (snd s)" and ?Y = "y_vertices (snd s)"
  let ?f = "\<lambda>v. item (vertex_objs (fst s) ! v)"
  from outer_loop_count[of True ?Y ?X "fst s" "snd s"] obtain h' g' where
    run: "foreach (\<lambda>a. foreach (build_pair True a) ?Y) ?X s = Inr (h', g')"
    and len: "length (graph_edges g') = length (graph_edges (snd s))
       + length (filter (\<lambda>(a, b). ?f a = ?f b) (List.product ?X ?Y))"
    by auto
  have "build_edges s = Inr (h', g')"
    using True run by (simp add: build_edges_def bool_index_def)
  moreover have "length (filter (\<lambda>(x, y). x = y) (List.product (map ?f ?X) (map ?f ?Y)))
      = length (filter (\<lambda>(a, b). ?f a = ?f b) (List.product ?X ?Y))"
    by (rule count_pairs_map)
  ultimately show ?thesis using len by auto
next
  case False
  let ?X = "x_vertices (snd s)" and ?Y = "y_vertices (snd s)"
  let ?f = "\<lambda>v. item (vertex_objs (fst s) ! v)"
  from outer_loop_count[of False ?X ?Y "fst s" "snd s"] obtain h' g' where
    run: "foreach (\<lambda>a. foreach (build_pair False a) ?X) ?Y s = Inr (h', g')"
    and len: "length (graph_edges g') = length (graph_edges (snd s))
       + length (filter (\<lambda>(a, b). ?f a = ?f b) (List.product ?Y ?X))"
    by auto
  have "build_edges s = Inr (h', g')"
    using False run by (simp add: build_edges_def bool_index_def)
  moreover have "length (filter (\<lambda>(x, y). x = y) (List.product (map ?f ?X) (map ?f ?Y)))
      = length (filter (\<lambda>(a, b). ?f a = ?f b) (List.product ?X ?Y))"
    by (rule count_pairs_map)
  moreover have "length (filter (\<lambda>(b, a). ?f a = ?f b) (List.product ?Y ?X))
      = length (filter (\<lambda>(a, b). ?f a = ?f b) (List.product ?X ?Y))"
    by (rule count_pairs_swap)
  moreover have "(\<lambda>(b, a). ?f a = ?f b) = (\<lambda>(a, b). ?f a = ?f b)"
    by (auto simp add: fun_eq_iff)
  ultimately show ?thesis using len by auto
qed

lemma match_graph_edges: "match h g = Inr g' \<Longrightarrow> graph_edges g' = graph_edges g"
proof -
  assume run: "match h g = Inr g'"
  let ?vs = "[x_vertices g, y_vertices g] ! bool_index (according_to_x_set g)"
  from run have loop: "foreach (evaluate_match h) ?vs g = Inr g'"
    by (simp add: match_def Let_def)
  show ?thesis
  proof (rule foreach_preserves[where P = "\<lambda>t. graph_edges t = graph_edges g", OF _ _ loop])
    fix v t t'
    assume "graph_edges t = graph_edges g" and "evaluate_match h v t = Inr t'"
    then show "graph_edges t' = graph_edges g"
      using evaluate_match_cases[of h v t t'] by auto
  qed simp
qed

lemma assess_match_single: "assess_match [c] = c"
  by (simp add: assess_match_def)

text \<open>
  C7. Under the default predicate pipeline the edge phase of the constructor always
  completes, and the number of edges it leaves in \<open>edges\<close> is the number of pairs of an
  item of \<open>x_set\<close> and an item of \<open>y_set\<close> for which \<open>assess_match\<close> holds of the single
  condition, that is, the number of pairs of equal items. Every graph that the
  constructor returns has that number of edges. This holds for empty inputs too.
\<close>

theorem edge_count_is_matching_pairs:
  "(\<exists>h' g'. build_edges (initialize_vertices (h, initial_attributes xs ys flag)) = Inr (h', g')
       \<and> length (graph_edges g') =
           length (filter (\<lambda>(x, y). assess_match [x = y]) (List.product xs ys))
       \<and> length (graph_edges g') = length (filter (\<lambda>(x, y). x = y) (List.product xs ys)))
   \<and> (\<forall>h' g. MatchingGraph_init h xs ys flag = Inr (h', g) \<longrightarrow>
         length (graph_edges g) = length (filter (\<lambda>(x, y). x = y) (List.product xs ys)))"
proof -
  let ?g0 = "initial_attributes xs ys flag"
  let ?s0 = "initialize_vertices (h, ?g0)"
  have sets: "x_set ?g0 = xs" "y_set ?g0 = ys" "graph_edges ?g0 = []"
    by (simp_all add: initial_attributes_def)
  from build_edges_count[of ?s0] obtain h2 g2 where
    built: "build_edges ?s0 = Inr (h2, g2)"
    and len: "length (graph_edges g2) = length (filter (\<lambda>(x, y). x = y) (List.product xs ys))"
    unfolding initialize_vertices_x_items initialize_vertices_y_items
      initialize_vertices_fields sets
    by auto
  have first: "\<exists>h' g'. build_edges ?s0 = Inr (h', g')
       \<and> length (graph_edges g') =
           length (filter (\<lambda>(x, y). assess_match [x = y]) (List.product xs ys))
       \<and> length (graph_edges g') = length (filter (\<lambda>(x, y). x = y) (List.product xs ys))"
    using built len by (simp add: assess_match_single)
  have second: "length (graph_edges g) = length (filter (\<lambda>(x, y). x = y) (List.product xs ys))"
    if "MatchingGraph_init h xs ys flag = Inr (h', g)" for h' g
  proof -
    from that built have "match h2 g2 = Inr g"
      by (auto simp add: MatchingGraph_init_def split: sum.splits)
    from match_graph_edges[OF this] len show ?thesis by simp
  qed
  from first second show ?thesis by blast
qed

theorem edge_count_is_matching_pairs_witness:
  "case MatchingGraph_init empty_heap [''a'', ''b''] [''a'', ''c''] True of
     Inl err \<Rightarrow> False
   | Inr (h', g) \<Rightarrow>
       length (graph_edges g) = 1
       \<and> length (filter (\<lambda>(x, y). x = y) (List.product [''a'', ''b''] [''a'', ''c''])) = 1"
proof -
  have run: "case MatchingGraph_init empty_heap [''a'', ''b''] [''a'', ''c''] True of
     Inl err \<Rightarrow> False | Inr (h', g) \<Rightarrow> True"
    by code_simp
  then obtain h' g where
    ok: "MatchingGraph_init empty_heap [''a'', ''b''] [''a'', ''c''] True = Inr (h', g)"
    by (auto split: sum.splits)
  have count: "length (filter (\<lambda>(x, y). x = y) (List.product [''a'', ''b''] [''a'', ''c''])) = 1"
    by simp
  from edge_count_is_matching_pairs[of empty_heap "[''a'', ''b'']" "[''a'', ''c'']" True]
    ok count
  show ?thesis by simp
qed

end
